theory Spec2Isabelle
  imports Main "HOL-Library.Log_Nat"
begin

section \<open>Python floats\<close>

text \<open>
  The prices, weights and power figures of \<^verbatim>\<open>arcade_catalog.py\<close> are Python floats:
  IEEE 754 binary64 values combined with \<^verbatim>\<open>+\<close>, \<^verbatim>\<open>-\<close>, \<^verbatim>\<open>*\<close> and compared with
  \<^verbatim>\<open><=\<close>. A float is modelled by its value: a rational for a finite float, the two
  infinities and NaN. The two zeros \<^verbatim>\<open>0.0\<close> and \<^verbatim>\<open>-0.0\<close> are one value \<open>Finite 0\<close>:
  they compare equal, and sums, differences and products of operands that differ only in
  the sign of a zero differ only in the sign of a zero.

  Every arithmetic result is rounded to the nearest binary64 value, ties to the even
  significand (\<open>round_double\<close>): 53 significant bits, exponents from \<open>-1022\<close>
  (subnormals below) and overflow to an infinity when the rounded magnitude reaches
  \<open>2^1024\<close>, that is when its binary exponent is 1024 or more. Python raises no
  exception for \<^verbatim>\<open>+\<close>, \<^verbatim>\<open>-\<close> and \<^verbatim>\<open>*\<close> on floats.
\<close>

datatype pyfloat = Finite rat | PosInf | NegInf | NaN

definition pow2 :: "int \<Rightarrow> rat" where
  "pow2 e = (if 0 \<le> e then of_int (2 ^ nat e) else 1 / of_int (2 ^ nat (- e)))"

text \<open>The binary exponent of a positive rational \<open>x\<close>: \<open>pow2 (ilog2 x) \<le> x < pow2 (ilog2 x + 1)\<close>.\<close>

definition ilog2 :: "rat \<Rightarrow> int" where
  "ilog2 x = (case quotient_of x of (p, q) \<Rightarrow>
     (let d = bitlen p - bitlen q in if pow2 d \<le> x then d else d - 1))"

definition round_half_even :: "rat \<Rightarrow> int" where
  "round_half_even x =
     (let f = \<lfloor>x\<rfloor>; d = x - of_int f
      in if d < 1 / 2 then f
         else if 1 / 2 < d then f + 1
         else if even f then f else f + 1)"

text \<open>Rounding a positive rational to the binary64 grid (before the overflow check).\<close>

definition round_magnitude :: "rat \<Rightarrow> rat" where
  "round_magnitude x =
     (let e = max (ilog2 x) (- 1022); u = pow2 (e - 52)
      in of_int (round_half_even (x / u)) * u)"

definition round_double :: "rat \<Rightarrow> pyfloat" where
  "round_double x =
     (if x = 0 then Finite 0
      else let y = round_magnitude \<bar>x\<bar>
           in if 1024 \<le> ilog2 y then (if 0 < x then PosInf else NegInf)
              else Finite (if 0 < x then y else - y))"

text \<open>A decimal literal of the source, such as \<^verbatim>\<open>1.1\<close>, denotes the nearest float.\<close>

definition float_literal :: "rat \<Rightarrow> pyfloat" where
  "float_literal r = round_double r"

fun fadd :: "pyfloat \<Rightarrow> pyfloat \<Rightarrow> pyfloat" where
  "fadd NaN y = NaN"
| "fadd x NaN = NaN"
| "fadd (Finite a) (Finite b) = round_double (a + b)"
| "fadd PosInf NegInf = NaN"
| "fadd NegInf PosInf = NaN"
| "fadd PosInf y = PosInf"
| "fadd x PosInf = PosInf"
| "fadd NegInf y = NegInf"
| "fadd x NegInf = NegInf"

fun fneg :: "pyfloat \<Rightarrow> pyfloat" where
  "fneg (Finite a) = Finite (- a)"
| "fneg PosInf = NegInf"
| "fneg NegInf = PosInf"
| "fneg NaN = NaN"

definition fsub :: "pyfloat \<Rightarrow> pyfloat \<Rightarrow> pyfloat" where
  "fsub x y = fadd x (fneg y)"

fun fmul :: "pyfloat \<Rightarrow> pyfloat \<Rightarrow> pyfloat" where
  "fmul NaN y = NaN"
| "fmul x NaN = NaN"
| "fmul (Finite a) (Finite b) = round_double (a * b)"
| "fmul (Finite a) PosInf = (if a = 0 then NaN else if 0 < a then PosInf else NegInf)"
| "fmul (Finite a) NegInf = (if a = 0 then NaN else if 0 < a then NegInf else PosInf)"
| "fmul PosInf (Finite b) = (if b = 0 then NaN else if 0 < b then PosInf else NegInf)"
| "fmul NegInf (Finite b) = (if b = 0 then NaN else if 0 < b then NegInf else PosInf)"
| "fmul PosInf PosInf = PosInf"
| "fmul PosInf NegInf = NegInf"
| "fmul NegInf PosInf = NegInf"
| "fmul NegInf NegInf = PosInf"

text \<open>The comparisons \<^verbatim>\<open><=\<close> and \<^verbatim>\<open>>\<close>: every comparison with NaN is false.\<close>

fun fle :: "pyfloat \<Rightarrow> pyfloat \<Rightarrow> bool" where
  "fle NaN y = False"
| "fle x NaN = False"
| "fle (Finite a) (Finite b) = (a \<le> b)"
| "fle NegInf y = True"
| "fle x PosInf = True"
| "fle x y = False"

fun fgt :: "pyfloat \<Rightarrow> pyfloat \<Rightarrow> bool" where
  "fgt NaN y = False"
| "fgt x NaN = False"
| "fgt (Finite a) (Finite b) = (b < a)"
| "fgt x PosInf = False"
| "fgt NegInf y = False"
| "fgt x y = True"

section \<open>Strings\<close>

text \<open>
  \<^verbatim>\<open>str.lower()\<close> on the characters the model has: the letters \<^verbatim>\<open>A\<close> to \<^verbatim>\<open>Z\<close> go to
  \<^verbatim>\<open>a\<close> to \<^verbatim>\<open>z\<close>, every other character stays. The program compares lower-cased
  materials with \<^verbatim>\<open>wood\<close>, \<^verbatim>\<open>aluminium\<close> and \<^verbatim>\<open>carbon fiber\<close>: no character outside
  \<^verbatim>\<open>A\<close> to \<^verbatim>\<open>Z\<close> has one of their letters as its lower case, so a string matches one of the
  three in Python exactly when it does here.
\<close>

definition lower_char :: "char \<Rightarrow> char" where
  "lower_char c =
     (let n = (of_char c :: nat) in if 65 \<le> n \<and> n \<le> 90 then char_of (n + 32) else c)"

definition lower :: "string \<Rightarrow> string" where
  "lower s = map lower_char s"

section \<open>The data model\<close>

text \<open>
  Objects that the program compares by identity (\<^verbatim>\<open>Videogame\<close> defines no
  \<^verbatim>\<open>__eq__\<close>) are named by a reference; a store gives the object a reference denotes.
\<close>

type_synonym ref = nat

record Dimensions =
  length_d :: pyfloat
  width :: pyfloat
  height :: pyfloat

record Videogame =
  name :: string
  storytelling_creator :: string
  graphics_creator :: string
  category :: string
  price :: pyfloat
  year :: int
  is_high_definition :: bool

type_synonym game_store = "ref \<Rightarrow> Videogame"

text \<open>
  \<^verbatim>\<open>Videogame.__init__\<close>: the fields are stored, then a high-definition game has its
  price multiplied by the float \<^verbatim>\<open>1.1\<close>.
\<close>

definition Videogame_init ::
  "string \<Rightarrow> string \<Rightarrow> string \<Rightarrow> string \<Rightarrow> pyfloat \<Rightarrow> int \<Rightarrow> bool \<Rightarrow> Videogame" where
  "Videogame_init n sc gc cat p y is_hd =
     (let self = \<lparr>name = n, storytelling_creator = sc, graphics_creator = gc,
                  category = cat, price = p, year = y, is_high_definition = is_hd\<rparr>
      in if is_hd then self\<lparr>price := fmul (price self) (float_literal (11 / 10))\<rparr> else self)"

text \<open>
  Attributes that a template attaches to the machine it built (\<^verbatim>\<open>machine.number_of_guns = 2\<close>)
  are kept as the list of the attribute names and values, in the order of the assignments.
\<close>

datatype attribute = IntAttr int | StrAttr string | StrListAttr "string list"

record Machine =
  material :: string
  dimensions :: Dimensions
  weight :: pyfloat
  power_consumption :: pyfloat
  memory :: int
  processors :: int
  base_price :: pyfloat
  color :: string
  videogames :: "ref list"
  attributes :: "(string \<times> attribute) list"

text \<open>
  \<^verbatim>\<open>Machine.__init__\<close>. The numeric arguments are annotated \<^verbatim>\<open>float\<close>; the templates
  pass integer literals (\<^verbatim>\<open>200\<close>, \<^verbatim>\<open>5000\<close>), which are modelled by the float of the same
  value: an integer below \<open>2^53\<close> and the float equal to it give equal results in every
  product, sum, difference and comparison with a float.
\<close>

definition Machine_init ::
  "string \<Rightarrow> Dimensions \<Rightarrow> pyfloat \<Rightarrow> pyfloat \<Rightarrow> int \<Rightarrow> int \<Rightarrow> pyfloat \<Rightarrow> string \<Rightarrow> Machine" where
  "Machine_init mat dims w pc mem procs bp col =
     \<lparr>material = mat, dimensions = dims, weight = w, power_consumption = pc,
      memory = mem, processors = procs, base_price = bp, color = col,
      videogames = [], attributes = []\<rparr>"

text \<open>
  \<^verbatim>\<open>add_videogame\<close>, \<^verbatim>\<open>remove_videogame\<close> and \<^verbatim>\<open>calculate_total_price\<close>. The machine is
  passed in and returned updated. \<^verbatim>\<open>game in self.videogames\<close> and \<^verbatim>\<open>list.remove\<close> compare
  the objects, which are equal only when they are the same object: membership and removal
  of the first occurrence, on references.
\<close>

definition add_videogame :: "game_store \<Rightarrow> Machine \<Rightarrow> ref \<Rightarrow> Machine" where
  "add_videogame st self game =
     (let self1 = self\<lparr>videogames := videogames self @ [game]\<rparr>
      in self1\<lparr>base_price := fadd (base_price self1) (price (st game))\<rparr>)"

definition remove_videogame :: "game_store \<Rightarrow> Machine \<Rightarrow> ref \<Rightarrow> Machine" where
  "remove_videogame st self game =
     (if game \<in> set (videogames self)
      then let self1 = self\<lparr>videogames := remove1 game (videogames self)\<rparr>
           in self1\<lparr>base_price := fsub (base_price self1) (price (st game))\<rparr>
      else self)"

definition calculate_total_price :: "Machine \<Rightarrow> pyfloat" where
  "calculate_total_price self = base_price self"

subsection \<open>The predefined machines\<close>

datatype PredefinedMachine =
  DanceRevolutionMachine | ClassicalArcadeMachine | ShootingMachine | RacingMachine
  | VirtualRealityMachine

text \<open>The method \<^verbatim>\<open>create_machine(material, color)\<close> of each of the five classes.\<close>

fun create_predefined :: "PredefinedMachine \<Rightarrow> string \<Rightarrow> string \<Rightarrow> Machine" where
  "create_predefined DanceRevolutionMachine mat col =
     (Machine_init mat \<lparr>length_d = float_literal 2, width = float_literal (15 / 10),
                        height = float_literal (22 / 10)\<rparr>
        (Finite 200) (Finite 1000) 8 2 (Finite 5000) col)
     \<lparr>attributes := [(''difficulties'', StrListAttr [''Easy'', ''Medium'', ''Hard'']),
                     (''arrow_cardinalities'', IntAttr 4),
                     (''controls_price'', IntAttr 500)]\<rparr>"
| "create_predefined ClassicalArcadeMachine mat col =
     Machine_init mat \<lparr>length_d = float_literal (8 / 10), width = float_literal (6 / 10),
                        height = float_literal (18 / 10)\<rparr>
        (Finite 100) (Finite 500) 4 1 (Finite 3000) col"
| "create_predefined ShootingMachine mat col =
     (Machine_init mat \<lparr>length_d = float_literal (15 / 10), width = float_literal (12 / 10),
                        height = float_literal 2\<rparr>
        (Finite 150) (Finite 800) 8 2 (Finite 4000) col)
     \<lparr>attributes := [(''number_of_guns'', IntAttr 2), (''target_type'', StrAttr ''Moving'')]\<rparr>"
| "create_predefined RacingMachine mat col =
     (Machine_init mat \<lparr>length_d = float_literal 2, width = float_literal (18 / 10),
                        height = float_literal (15 / 10)\<rparr>
        (Finite 180) (Finite 1200) 16 4 (Finite 6000) col)
     \<lparr>attributes := [(''steering_type'', StrAttr ''Force Feedback''),
                     (''number_of_seats'', IntAttr 1)]\<rparr>"
| "create_predefined VirtualRealityMachine mat col =
     (Machine_init mat \<lparr>length_d = float_literal (25 / 10), width = float_literal (25 / 10),
                        height = float_literal (22 / 10)\<rparr>
        (Finite 220) (Finite 1500) 32 8 (Finite 8000) col)
     \<lparr>attributes := [(''glasses_type'', StrAttr ''OLED''),
                     (''glasses_resolution'', StrAttr ''4K''),
                     (''glasses_price'', IntAttr 1000)]\<rparr>"

subsection \<open>The material decorators\<close>

datatype MaterialDecorator =
  WoodMaterialDecorator | AluminiumMaterialDecorator | CarbonFiberMaterialDecorator

text \<open>
  A decorator holds the machine and updates it in place; here each method takes the
  machine and returns it updated. The aluminium decorator's
  \<^verbatim>\<open>adjust_power_consumption\<close> is \<^verbatim>\<open>pass\<close>.
\<close>

fun adjust_weight :: "MaterialDecorator \<Rightarrow> Machine \<Rightarrow> Machine" where
  "adjust_weight WoodMaterialDecorator m = m\<lparr>weight := fmul (weight m) (float_literal (11 / 10))\<rparr>"
| "adjust_weight AluminiumMaterialDecorator m = m\<lparr>weight := fmul (weight m) (float_literal (95 / 100))\<rparr>"
| "adjust_weight CarbonFiberMaterialDecorator m = m\<lparr>weight := fmul (weight m) (float_literal (85 / 100))\<rparr>"

fun adjust_price :: "MaterialDecorator \<Rightarrow> Machine \<Rightarrow> Machine" where
  "adjust_price WoodMaterialDecorator m = m\<lparr>base_price := fmul (base_price m) (float_literal (95 / 100))\<rparr>"
| "adjust_price AluminiumMaterialDecorator m = m\<lparr>base_price := fmul (base_price m) (float_literal (11 / 10))\<rparr>"
| "adjust_price CarbonFiberMaterialDecorator m = m\<lparr>base_price := fmul (base_price m) (float_literal (12 / 10))\<rparr>"

fun adjust_power_consumption :: "MaterialDecorator \<Rightarrow> Machine \<Rightarrow> Machine" where
  "adjust_power_consumption WoodMaterialDecorator m =
     m\<lparr>power_consumption := fmul (power_consumption m) (float_literal (115 / 100))\<rparr>"
| "adjust_power_consumption AluminiumMaterialDecorator m = m"
| "adjust_power_consumption CarbonFiberMaterialDecorator m =
     m\<lparr>power_consumption := fmul (power_consumption m) (float_literal (9 / 10))\<rparr>"

subsection \<open>The factory\<close>

text \<open>
  The two dictionaries of \<^verbatim>\<open>MachineFactory.create_machine\<close> are maps; \<^verbatim>\<open>dict.get\<close> is the
  application of the map, \<open>None\<close> for a missing key. An instance of a class without
  \<^verbatim>\<open>__bool__\<close> and \<^verbatim>\<open>__len__\<close> is true, so \<^verbatim>\<open>not machine_creator\<close> holds for \<open>None\<close>
  only. The function returns \<^verbatim>\<open>None\<close> or the machine, and raises nowhere: the result is
  an option.
\<close>

definition predefined_machines :: "string \<rightharpoonup> PredefinedMachine" where
  "predefined_machines =
     [''DanceRevolution'' \<mapsto> DanceRevolutionMachine,
      ''ClassicalArcade'' \<mapsto> ClassicalArcadeMachine,
      ''Shooting'' \<mapsto> ShootingMachine,
      ''Racing'' \<mapsto> RacingMachine,
      ''VirtualReality'' \<mapsto> VirtualRealityMachine]"

definition material_decorators :: "string \<rightharpoonup> MaterialDecorator" where
  "material_decorators =
     [''wood'' \<mapsto> WoodMaterialDecorator,
      ''aluminium'' \<mapsto> AluminiumMaterialDecorator,
      ''carbon fiber'' \<mapsto> CarbonFiberMaterialDecorator]"

definition create_machine :: "string \<Rightarrow> string \<Rightarrow> string \<Rightarrow> Machine option" where
  "create_machine machine_type mat col =
     (case predefined_machines machine_type of
        None \<Rightarrow> None
      | Some machine_creator \<Rightarrow>
          (let machine = create_predefined machine_creator mat col
           in case material_decorators (lower mat) of
                None \<Rightarrow> Some machine
              | Some decorator \<Rightarrow>
                  Some (adjust_power_consumption decorator
                          (adjust_price decorator (adjust_weight decorator machine)))))"

subsection \<open>The catalog\<close>

text \<open>
  The catalog holds its machines in registration order. A search reads the machines as
  they are when it runs, so the list of \<^verbatim>\<open>self.machines\<close> is modelled by the list of the
  machines' current values; a machine registered twice stands twice in it.
\<close>

record CatalogManager =
  machines :: "Machine list"

definition CatalogManager_init :: CatalogManager where
  "CatalogManager_init = \<lparr>machines = []\<rparr>"

definition register_machine :: "CatalogManager \<Rightarrow> Machine \<Rightarrow> CatalogManager" where
  "register_machine self machine = self\<lparr>machines := machines self @ [machine]\<rparr>"

text \<open>
  A list comprehension \<^verbatim>\<open>[m for m in xs if cond(m)]\<close> runs through \<open>xs\<close> from the front
  and appends every element that passes the condition to the list it builds.
\<close>

fun comprehension_loop :: "('a \<Rightarrow> bool) \<Rightarrow> 'a list \<Rightarrow> 'a list \<Rightarrow> 'a list" where
  "comprehension_loop cond [] result = result"
| "comprehension_loop cond (m # ms) result =
     comprehension_loop cond ms (if cond m then result @ [m] else result)"

definition comprehension :: "('a \<Rightarrow> bool) \<Rightarrow> 'a list \<Rightarrow> 'a list" where
  "comprehension cond xs = comprehension_loop cond xs []"

text \<open>
  Each search returns its result list together with the catalog it leaves behind.
  \<^verbatim>\<open>len(m.videogames) == count\<close> compares two integers; the chained comparison
  \<^verbatim>\<open>lo <= x <= hi\<close> is \<^verbatim>\<open>lo <= x and x <= hi\<close>.
\<close>

definition search_by_videogame_count ::
  "CatalogManager \<Rightarrow> int \<Rightarrow> Machine list \<times> CatalogManager" where
  "search_by_videogame_count self count =
     (comprehension (\<lambda>m. int (length (videogames m)) = count) (machines self), self)"

definition search_by_price_range ::
  "CatalogManager \<Rightarrow> pyfloat \<Rightarrow> pyfloat \<Rightarrow> Machine list \<times> CatalogManager" where
  "search_by_price_range self min_price max_price =
     (comprehension
        (\<lambda>m. fle min_price (calculate_total_price m) \<and> fle (calculate_total_price m) max_price)
        (machines self), self)"

definition search_by_weight_range ::
  "CatalogManager \<Rightarrow> pyfloat \<Rightarrow> pyfloat \<Rightarrow> Machine list \<times> CatalogManager" where
  "search_by_weight_range self min_weight max_weight =
     (comprehension (\<lambda>m. fle min_weight (weight m) \<and> fle (weight m) max_weight)
        (machines self), self)"

definition search_by_power_consumption_range ::
  "CatalogManager \<Rightarrow> pyfloat \<Rightarrow> pyfloat \<Rightarrow> Machine list \<times> CatalogManager" where
  "search_by_power_consumption_range self min_power max_power =
     (comprehension
        (\<lambda>m. fle min_power (power_consumption m) \<and> fle (power_consumption m) max_power)
        (machines self), self)"

subsection \<open>Sequences of calls on a machine\<close>

datatype call = AddVideogame ref | RemoveVideogame ref

fun apply_call :: "game_store \<Rightarrow> Machine \<Rightarrow> call \<Rightarrow> Machine" where
  "apply_call st m (AddVideogame g) = add_videogame st m g"
| "apply_call st m (RemoveVideogame g) = remove_videogame st m g"

definition run_calls :: "game_store \<Rightarrow> Machine \<Rightarrow> call list \<Rightarrow> Machine" where
  "run_calls st m cs = foldl (apply_call st) m cs"





subsection \<open>Example objects\<close>

text \<open>
  A store of games for the examples: references 0 and 2 denote two distinct games with
  the same field values, reference 1 a third game. The prices are integral.
\<close>

definition example_store :: game_store where
  "example_store r =
     (if r = 1 then Videogame_init ''Tetris'' ''Pajitnov'' ''Pajitnov'' ''Puzzle'' (Finite 250) 1984 False
      else Videogame_init ''Pong'' ''Alcorn'' ''Alcorn'' ''Sport'' (Finite 100) 1972 False)"


definition example_machine :: Machine where
  "example_machine = create_predefined ClassicalArcadeMachine ''steel'' ''Blue''"

text \<open>The example machine after four additions: its list is \<open>[1, 0, 1, 0]\<close>.\<close>

definition stocked_machine :: Machine where
  "stocked_machine =
     run_calls example_store example_machine
       [AddVideogame 1, AddVideogame 0, AddVideogame 1, AddVideogame 0]"

text \<open>A catalog of three machines built by the factory, with weights 100, 171 and 242.00000000000003.\<close>

definition example_catalog :: CatalogManager where
  "example_catalog =
     register_machine
       (register_machine
         (register_machine CatalogManager_init example_machine)
         (the (create_machine ''Racing'' ''Aluminium'' ''Red'')))
       (the (create_machine ''VirtualReality'' ''wood'' ''Black''))"

section \<open>The rounding model\<close>

text \<open>
  \<open>ilog2\<close> is the binary exponent: a positive rational lies between the power of two it
  names and the next one.
\<close>

lemma pow2_powi: "pow2 e = 2 powi e"
  by (simp add: pow2_def power_int_def field_simps)

lemma bitlen_powi_bounds:
  assumes "0 < p"
  shows "(2::rat) powi (bitlen p - 1) \<le> of_int p" and "of_int p < (2::rat) powi (bitlen p)"
proof -
  from bitlen_bounds [OF assms] have lo: "2 ^ nat (bitlen p - 1) \<le> p" and hi: "p < 2 ^ nat (bitlen p)"
    by simp_all
  have pos: "1 \<le> bitlen p" using assms by (simp add: bitlen_alt_def)
  from lo have "(of_int (2 ^ nat (bitlen p - 1)) :: rat) \<le> of_int p"
    by (simp only: of_int_le_iff)
  with pos show "(2::rat) powi (bitlen p - 1) \<le> of_int p"
    by (simp add: power_int_def)
  from hi have "(of_int p :: rat) < of_int (2 ^ nat (bitlen p))"
    by (simp only: of_int_less_iff)
  with pos show "of_int p < (2::rat) powi (bitlen p)"
    by (simp add: power_int_def)
qed

lemma ilog2_bounds:
  assumes "0 < x"
  shows "pow2 (ilog2 x) \<le> x \<and> x < pow2 (ilog2 x + 1)"
proof -
  obtain p q where pq: "quotient_of x = (p, q)" by (cases "quotient_of x")
  then have q: "0 < q" by (rule quotient_of_denom_pos)
  from pq have x: "x = of_int p / of_int q" by (rule quotient_of_div)
  with assms q have p: "0 < p" by (simp add: zero_less_divide_iff)
  let ?d = "bitlen p - bitlen q"
  note bp = bitlen_powi_bounds [OF p] and bq = bitlen_powi_bounds [OF q]
  have qpos: "(0::rat) < of_int q" using q by simp
  have up: "x < (2::rat) powi (?d + 1)"
  proof -
    have "x * of_int q = of_int p" using x qpos by simp
    also have "\<dots> < 2 powi (bitlen p)" by (rule bp(2))
    also have "\<dots> = 2 powi (?d + 1) * 2 powi (bitlen q - 1)"
      by (simp add: power_int_add [symmetric])
    also have "\<dots> \<le> 2 powi (?d + 1) * of_int q"
      using bq(1) by (simp add: mult_left_mono)
    finally show ?thesis using qpos by simp
  qed
  have low: "(2::rat) powi (?d - 1) < x"
  proof -
    have "(2::rat) powi (?d - 1) * of_int q < 2 powi (?d - 1) * 2 powi (bitlen q)"
      using bq(2) by (simp add: mult_strict_left_mono)
    also have "\<dots> = 2 powi (bitlen p - 1)"
      by (simp add: power_int_add [symmetric])
    also have "\<dots> \<le> of_int p" by (rule bp(1))
    also have "\<dots> = x * of_int q" using x qpos by simp
    finally show ?thesis using qpos by simp
  qed
  show ?thesis
  proof (cases "pow2 ?d \<le> x")
    case True
    with pq have "ilog2 x = ?d" by (simp add: ilog2_def Let_def)
    with True up show ?thesis by (simp add: pow2_powi)
  next
    case False
    with pq have "ilog2 x = ?d - 1" by (simp add: ilog2_def Let_def)
    with False low show ?thesis by (simp add: pow2_powi)
  qed
qed

text \<open>
  Checks of \<open>round_double\<close> against values that Python prints: \<^verbatim>\<open>0.1 + 0.2\<close> is
  \<^verbatim>\<open>0.30000000000000004\<close>; the integers \<open>2^53 + 1\<close> and \<open>2^53 + 3\<close> lie halfway between two
  floats and go to the even significand; \<^verbatim>\<open>2.0 ** 1023 * 2\<close> overflows to \<^verbatim>\<open>inf\<close>.
\<close>

lemma round_double_tenths:
  "fadd (float_literal (1 / 10)) (float_literal (2 / 10))
     = Finite (5404319552844596 / 18014398509481984)"
  by code_simp

lemma round_double_ties_to_even:
  "round_double 9007199254740993 = Finite 9007199254740992
   \<and> round_double 9007199254740995 = Finite 9007199254740996"
  by code_simp

lemma fmul_overflow: "fmul (Finite (of_int (2 ^ 1023))) (Finite 2) = PosInf"
  by code_simp

section \<open>Videogame construction\<close>

text \<open>
  Claim C4. A videogame built with \<open>is_high_definition\<close> true stores the input price
  multiplied by the float \<open>1.1\<close>, once; built with it false it stores the input price
  unchanged. The constructor returns for every input (it has no error branch), and the
  other six fields are stored as given. The stored price is a field: reading it is the
  selector \<open>price\<close>, which computes nothing.
\<close>

theorem Videogame_init_price:
  "price (Videogame_init n sc gc cat p y True) = fmul p (float_literal (11 / 10))
   \<and> price (Videogame_init n sc gc cat p y False) = p
   \<and> Videogame_init n sc gc cat p y is_hd
       = \<lparr>name = n, storytelling_creator = sc, graphics_creator = gc, category = cat,
          price = price (Videogame_init n sc gc cat p y is_hd), year = y,
          is_high_definition = is_hd\<rparr>"
  by (simp add: Videogame_init_def Let_def)

text \<open>
  The product is the float product: a high-definition game entered at \<^verbatim>\<open>100.0\<close> is stored
  at \<^verbatim>\<open>110.00000000000001\<close>.
\<close>

lemma Videogame_init_hd_100:
  "price (Videogame_init n sc gc cat (Finite 100) y True) = Finite (110 + 1 / 70368744177664)"
  by code_simp

section \<open>Adding and removing videogames\<close>

text \<open>
  Claim C9. \<open>add_videogame\<close> and \<open>remove_videogame\<close> change no field of the machine but
  \<open>videogames\<close> and \<open>base_price\<close>: the machine they return is the machine they were given
  with those two fields replaced, so material, dimensions, weight, power consumption,
  memory, processors, color and the attached attributes are as before, whether or not the
  game is in the list.
\<close>

theorem add_remove_frame:
  "add_videogame st m g
     = m\<lparr>videogames := videogames (add_videogame st m g),
          base_price := base_price (add_videogame st m g)\<rparr>
   \<and> remove_videogame st m g
     = m\<lparr>videogames := videogames (remove_videogame st m g),
          base_price := base_price (remove_videogame st m g)\<rparr>
   \<and> material (add_videogame st m g) = material m
   \<and> dimensions (add_videogame st m g) = dimensions m
   \<and> weight (add_videogame st m g) = weight m
   \<and> power_consumption (add_videogame st m g) = power_consumption m
   \<and> memory (add_videogame st m g) = memory m
   \<and> processors (add_videogame st m g) = processors m
   \<and> color (add_videogame st m g) = color m
   \<and> material (remove_videogame st m g) = material m
   \<and> dimensions (remove_videogame st m g) = dimensions m
   \<and> weight (remove_videogame st m g) = weight m
   \<and> power_consumption (remove_videogame st m g) = power_consumption m
   \<and> memory (remove_videogame st m g) = memory m
   \<and> processors (remove_videogame st m g) = processors m
   \<and> color (remove_videogame st m g) = color m"
  by (simp add: add_videogame_def remove_videogame_def Let_def)

text \<open>The first occurrence of an element splits the list; \<open>remove1\<close> drops exactly it.\<close>

lemma remove1_first_occurrence:
  assumes "g \<in> set xs"
  shows "\<exists>pre post. xs = pre @ g # post \<and> g \<notin> set pre \<and> remove1 g xs = pre @ post"
proof -
  from assms obtain pre post where s: "xs = pre @ g # post" "g \<notin> set pre"
    by (meson split_list_first)
  then have "remove1 g xs = pre @ post"
    by (simp add: remove1_append)
  with s show ?thesis by blast
qed

text \<open>
  Claim C5. When the game (the object, named by its reference) is in the machine's list,
  \<open>remove_videogame\<close> removes its first occurrence and nothing else, and the base price
  becomes the float difference of the base price and the game's price. When it is not in
  the list, the machine is returned as it was: list and base price unchanged, no error.
  Membership is by identity: a different reference is absent even when it denotes a game
  with the same field values (the witness removes reference 2, whose game equals that of
  reference 0).
\<close>

theorem remove_videogame_spec:
  "(g \<in> set (videogames m) \<longrightarrow>
      (\<exists>pre post. videogames m = pre @ g # post \<and> g \<notin> set pre
         \<and> videogames (remove_videogame st m g) = pre @ post)
      \<and> base_price (remove_videogame st m g) = fsub (base_price m) (price (st g)))
   \<and> (g \<notin> set (videogames m) \<longrightarrow> remove_videogame st m g = m)"
  using remove1_first_occurrence [of g "videogames m"]
  by (simp add: remove_videogame_def Let_def)

theorem remove_videogame_spec_witness:
  "videogames stocked_machine = [1, 0, 1, 0]
   \<and> 0 \<in> set (videogames stocked_machine)
   \<and> (\<exists>pre post. videogames stocked_machine = pre @ 0 # post \<and> 0 \<notin> set pre
         \<and> videogames (remove_videogame example_store stocked_machine 0) = pre @ post)
   \<and> videogames (remove_videogame example_store stocked_machine 0) = [1, 1, 0]
   \<and> base_price (remove_videogame example_store stocked_machine 0)
       = fsub (base_price stocked_machine) (price (example_store 0))
   \<and> example_store 2 = example_store 0
   \<and> 2 \<notin> set (videogames stocked_machine)
   \<and> remove_videogame example_store stocked_machine 2 = stocked_machine"
proof -
  have games: "videogames stocked_machine = [1, 0, 1, 0]"
    by (simp add: stocked_machine_def run_calls_def add_videogame_def Let_def
        example_machine_def Machine_init_def)
  have present: "0 \<in> set (videogames stocked_machine)" by (simp add: games)
  have absent: "2 \<notin> set (videogames stocked_machine)" by (simp add: games)
  have same: "example_store 2 = example_store 0" by (simp add: example_store_def)
  have result: "videogames (remove_videogame example_store stocked_machine 0) = [1, 1, 0]"
    by (simp add: remove_videogame_def Let_def games)
  from remove_videogame_spec [of 0 stocked_machine example_store] present
  have removed: "(\<exists>pre post. videogames stocked_machine = pre @ 0 # post \<and> 0 \<notin> set pre
         \<and> videogames (remove_videogame example_store stocked_machine 0) = pre @ post)
      \<and> base_price (remove_videogame example_store stocked_machine 0)
          = fsub (base_price stocked_machine) (price (example_store 0))"
    by blast
  from remove_videogame_spec [of 2 stocked_machine example_store] absent
  have kept: "remove_videogame example_store stocked_machine 2 = stocked_machine"
    by blast
  from games present absent same result removed kept show ?thesis by blast
qed

section \<open>The running total\<close>








section \<open>The material decorators\<close>

text \<open>
  Claim C8. For each of the three decorators and every machine, \<open>adjust_weight\<close>,
  \<open>adjust_price\<close> and \<open>adjust_power_consumption\<close> each read and write one field of their
  own: applied once each in the order weight, price, power they give the machine with
  its weight, base price and power consumption replaced by what each adjustment alone
  computes from the original machine, and each of the other five orders gives the same
  machine.
\<close>

theorem adjustments_commute:
  "adjust_power_consumption d (adjust_price d (adjust_weight d m))
     = m\<lparr>weight := weight (adjust_weight d m),
          base_price := base_price (adjust_price d m),
          power_consumption := power_consumption (adjust_power_consumption d m)\<rparr>
   \<and> adjust_price d (adjust_power_consumption d (adjust_weight d m))
     = adjust_power_consumption d (adjust_price d (adjust_weight d m))
   \<and> adjust_power_consumption d (adjust_weight d (adjust_price d m))
     = adjust_power_consumption d (adjust_price d (adjust_weight d m))
   \<and> adjust_weight d (adjust_power_consumption d (adjust_price d m))
     = adjust_power_consumption d (adjust_price d (adjust_weight d m))
   \<and> adjust_price d (adjust_weight d (adjust_power_consumption d m))
     = adjust_power_consumption d (adjust_price d (adjust_weight d m))
   \<and> adjust_weight d (adjust_price d (adjust_power_consumption d m))
     = adjust_power_consumption d (adjust_price d (adjust_weight d m))"
  by (cases d) simp_all

section \<open>The factory\<close>

text \<open>
  Claim C3. For every machine type that is not, character for character, one of
  \<^verbatim>\<open>DanceRevolution\<close>, \<^verbatim>\<open>ClassicalArcade\<close>, \<^verbatim>\<open>Shooting\<close>, \<^verbatim>\<open>Racing\<close>, \<^verbatim>\<open>VirtualReality\<close>,
  \<open>create_machine\<close> returns \<open>None\<close>, whatever the material and the color; it has no
  error result. The witness is \<^verbatim>\<open>create_machine("Unknown", "wood", "Blue")\<close>, and the
  lower-case \<^verbatim>\<open>racing\<close>.
\<close>

theorem create_machine_unknown_type:
  "machine_type \<notin> {''DanceRevolution'', ''ClassicalArcade'', ''Shooting'', ''Racing'',
                     ''VirtualReality''}
   \<Longrightarrow> create_machine machine_type mat col = None"
  by (simp add: create_machine_def predefined_machines_def)

theorem create_machine_unknown_type_witness:
  "create_machine ''Unknown'' ''wood'' ''Blue'' = None
   \<and> create_machine ''racing'' ''wood'' ''Blue'' = None"
  using create_machine_unknown_type [of "''Unknown''" "''wood''" "''Blue''"]
    create_machine_unknown_type [of "''racing''" "''wood''" "''Blue''"]
  by simp

text \<open>
  Claim C6. When the machine type is one of the five and the lower-cased material is none
  of \<^verbatim>\<open>wood\<close>, \<^verbatim>\<open>aluminium\<close>, \<^verbatim>\<open>carbon fiber\<close>, \<open>create_machine\<close> returns the machine that
  the template built, with no field changed: weight, base price and power consumption
  are the template's. It is a result, not an error.
\<close>

theorem create_machine_unknown_material:
  "predefined_machines machine_type = Some t
   \<Longrightarrow> lower mat \<notin> {''wood'', ''aluminium'', ''carbon fiber''}
   \<Longrightarrow> create_machine machine_type mat col = Some (create_predefined t mat col)"
  by (simp add: create_machine_def material_decorators_def Let_def)

theorem create_machine_unknown_material_witness:
  "predefined_machines ''Racing'' = Some RacingMachine
   \<and> lower ''Steel'' = ''steel''
   \<and> create_machine ''Racing'' ''Steel'' ''Red''
       = Some (create_predefined RacingMachine ''Steel'' ''Red'')
   \<and> weight (create_predefined RacingMachine ''Steel'' ''Red'') = Finite 180
   \<and> base_price (create_predefined RacingMachine ''Steel'' ''Red'') = Finite 6000
   \<and> power_consumption (create_predefined RacingMachine ''Steel'' ''Red'') = Finite 1200"
proof -
  have known: "predefined_machines ''Racing'' = Some RacingMachine"
    by (simp add: predefined_machines_def)
  have low: "lower ''Steel'' = ''steel''"
    by code_simp
  then have other: "lower ''Steel'' \<notin> {''wood'', ''aluminium'', ''carbon fiber''}"
    by simp
  from create_machine_unknown_material [OF known other, of "''Red''"]
  have made: "create_machine ''Racing'' ''Steel'' ''Red''
                = Some (create_predefined RacingMachine ''Steel'' ''Red'')" .
  from known low made show ?thesis
    by (simp add: Machine_init_def)
qed

text \<open>
  Claim C2, as amended. \<^verbatim>\<open>create_machine("Racing", "Aluminium", "Red")\<close> returns a machine:
  the material is lower-cased for the lookup, so the aluminium decorator is applied (the
  machine keeps the material string as given). Its weight is \<^verbatim>\<open>180 * 0.95 = 171.0\<close>
  exactly and its power consumption is \<^verbatim>\<open>1200\<close>. Its base price is the float product
  \<^verbatim>\<open>6000 * 1.1 = 6600.000000000001\<close>, that is \<open>6600 + 2^-40\<close>: it is \<^verbatim>\<open>6600.0\<close> only up to
  rounding.
\<close>

theorem racing_aluminium_red:
  "map_option weight (create_machine ''Racing'' ''Aluminium'' ''Red'') = Some (Finite 171)
   \<and> map_option base_price (create_machine ''Racing'' ''Aluminium'' ''Red'')
       = Some (Finite (6600 + 1 / 1099511627776))
   \<and> map_option power_consumption (create_machine ''Racing'' ''Aluminium'' ''Red'')
       = Some (Finite 1200)
   \<and> map_option material (create_machine ''Racing'' ''Aluminium'' ''Red'') = Some ''Aluminium''"
  by code_simp

text \<open>The claim as stated fails: the base price is not \<^verbatim>\<open>6600.0\<close>.\<close>

theorem racing_aluminium_red_counterexample:
  "map_option base_price (create_machine ''Racing'' ''Aluminium'' ''Red'') \<noteq> Some (Finite 6600)"
  by code_simp

section \<open>The catalog searches\<close>

lemma comprehension_loop_filter:
  "comprehension_loop cond xs result = result @ filter cond xs"
  by (induction xs arbitrary: result) simp_all

lemma comprehension_filter: "comprehension cond xs = filter cond xs"
  by (simp add: comprehension_def comprehension_loop_filter)

text \<open>
  Claim C10. \<open>search_by_videogame_count\<close> is defined for every integer count; for a
  negative count it returns the empty list, for every catalog, and leaves the catalog as
  it was.
\<close>

theorem search_by_videogame_count_negative:
  "count < 0 \<Longrightarrow> search_by_videogame_count c count = ([], c)"
  by (simp add: search_by_videogame_count_def comprehension_filter)

theorem search_by_videogame_count_negative_witness:
  "(- 1 :: int) < 0
   \<and> length (machines example_catalog) = 3
   \<and> search_by_videogame_count example_catalog (- 1) = ([], example_catalog)"
proof -
  have neg: "(- 1 :: int) < 0" by simp
  have three: "length (machines example_catalog) = 3"
    by (simp add: example_catalog_def register_machine_def CatalogManager_init_def)
  from neg three search_by_videogame_count_negative [OF neg, of example_catalog]
  show ?thesis by blast
qed

text \<open>The float order is transitive, and \<^verbatim>\<open>lo > hi\<close> excludes \<^verbatim>\<open>lo <= hi\<close>.\<close>

lemma fle_trans: "fle a b \<Longrightarrow> fle b c \<Longrightarrow> fle a c"
  by (cases a; cases b; cases c) simp_all

lemma fgt_not_fle: "fgt a b \<Longrightarrow> \<not> fle a b"
  by (cases a; cases b) simp_all

lemma empty_range: "fgt lo hi \<Longrightarrow> \<not> (fle lo x \<and> fle x hi)"
  using fle_trans fgt_not_fle by blast

text \<open>
  Claim C7. Each of the three range searches returns the machines of the catalog whose
  total price, weight or power consumption \<open>x\<close> satisfies \<^verbatim>\<open>lo <= x <= hi\<close>, in the order of
  registration and as often as they are registered, and leaves the catalog as it was.
  When \<^verbatim>\<open>lo > hi\<close> the result is empty. A catalog of three machines with weights 100,
  171 and 250, registered in that order, searched for weights from 150 to 200, gives the
  second machine alone.
\<close>

theorem range_searches:
  "search_by_price_range c lo hi
     = (filter (\<lambda>m. fle lo (calculate_total_price m) \<and> fle (calculate_total_price m) hi)
          (machines c), c)
   \<and> search_by_weight_range c lo hi
     = (filter (\<lambda>m. fle lo (weight m) \<and> fle (weight m) hi) (machines c), c)
   \<and> search_by_power_consumption_range c lo hi
     = (filter (\<lambda>m. fle lo (power_consumption m) \<and> fle (power_consumption m) hi)
          (machines c), c)
   \<and> (fgt lo hi \<longrightarrow>
        fst (search_by_price_range c lo hi) = []
        \<and> fst (search_by_weight_range c lo hi) = []
        \<and> fst (search_by_power_consumption_range c lo hi) = [])
   \<and> fst (search_by_weight_range
        (register_machine
          (register_machine
            (register_machine CatalogManager_init (m1\<lparr>weight := Finite 100\<rparr>))
            (m2\<lparr>weight := Finite 171\<rparr>))
          (m3\<lparr>weight := Finite 250\<rparr>))
        (Finite 150) (Finite 200))
     = [m2\<lparr>weight := Finite 171\<rparr>]"
  by (simp add: search_by_price_range_def search_by_weight_range_def
      search_by_power_consumption_range_def comprehension_filter empty_range
      register_machine_def CatalogManager_init_def)

theorem range_searches_witness:
  "fgt (Finite 200) (Finite 150)
   \<and> length (machines example_catalog) = 3
   \<and> fst (search_by_price_range example_catalog (Finite 200) (Finite 150)) = []
   \<and> fst (search_by_weight_range example_catalog (Finite 200) (Finite 150)) = []
   \<and> fst (search_by_power_consumption_range example_catalog (Finite 200) (Finite 150)) = []"
proof -
  have gt: "fgt (Finite 200) (Finite 150)" by simp
  have three: "length (machines example_catalog) = 3"
    by (simp add: example_catalog_def register_machine_def CatalogManager_init_def)
  from range_searches [of example_catalog "Finite 200" "Finite 150"] gt
  have "fst (search_by_price_range example_catalog (Finite 200) (Finite 150)) = []
        \<and> fst (search_by_weight_range example_catalog (Finite 200) (Finite 150)) = []
        \<and> fst (search_by_power_consumption_range example_catalog (Finite 200) (Finite 150)) = []"
    by blast
  with gt three show ?thesis by blast
qed

text \<open>
  On the factory-built example catalog (weights \<^verbatim>\<open>100\<close>, \<^verbatim>\<open>171.0\<close> and
  \<^verbatim>\<open>242.00000000000003\<close>) the search for weights from 150 to 200 gives the racing machine.
\<close>

lemma example_catalog_weight_search:
  "map weight (fst (search_by_weight_range example_catalog (Finite 150) (Finite 200)))
     = [Finite 171]
   \<and> map color (fst (search_by_weight_range example_catalog (Finite 150) (Finite 200)))
     = [''Red'']"
  by code_simp

end
